theory Spec2Isabelle
  imports Main "HOL-Library.Sublist" "HOL-Library.Multiset"
begin

section \<open>Python strings\<close>

text \<open>
  A Python \<open>str\<close> is modelled as a \<open>string\<close> whose characters are the code points
  below 256. The functions of this section are the built-in string methods the services
  call: \<open>str.lower\<close>, \<open>sub in s\<close>, \<open>str.split\<close> on a one-character separator,
  \<open>str.strip\<close> and \<open>sep.join\<close>.
\<close>

definition newline :: char where
  "newline = CHR 0x0A"

text \<open>\<open>c.lower()\<close>: below 256 the cased upper-case code points are \<open>A\<close>..\<open>Z\<close> and
  0xC0..0xDE without the multiplication sign 0xD7; each is 32 below its lower-case form.\<close>

definition char_lower :: "char \<Rightarrow> char" where
  "char_lower c =
     (let n = (of_char c :: nat)
      in if (65 \<le> n \<and> n \<le> 90) \<or> (192 \<le> n \<and> n \<le> 222 \<and> n \<noteq> 215)
         then char_of (n + 32) else c)"

definition str_lower :: "string \<Rightarrow> string" where
  "str_lower s = map char_lower s"

text \<open>\<open>sub in s\<close>: some position of \<open>s\<close> starts a copy of \<open>sub\<close>.\<close>

fun str_contains :: "string \<Rightarrow> string \<Rightarrow> bool" where
  "str_contains sub [] = (sub = [])"
| "str_contains sub (c # cs) = (take (length sub) (c # cs) = sub \<or> str_contains sub cs)"

text \<open>\<open>s.split(sep)\<close> for a separator of one character: never empty, one more piece
  than there are separators.\<close>

fun str_split :: "string \<Rightarrow> char \<Rightarrow> string list" where
  "str_split [] sep = [[]]"
| "str_split (c # cs) sep =
     (if c = sep then [] # str_split cs sep
      else (case str_split cs sep of
              [] \<Rightarrow> [[c]]
            | piece # pieces \<Rightarrow> (c # piece) # pieces))"

text \<open>\<open>c.isspace()\<close> below 256: tab to carriage return, the four separators
  0x1C..0x1F, the space, NEL (0x85) and the no-break space (0xA0).\<close>

definition isspace :: "char \<Rightarrow> bool" where
  "isspace c =
     (let n = (of_char c :: nat)
      in (9 \<le> n \<and> n \<le> 13) \<or> (28 \<le> n \<and> n \<le> 32) \<or> n = 133 \<or> n = 160)"

definition str_strip :: "string \<Rightarrow> string" where
  "str_strip s = rev (dropWhile isspace (rev (dropWhile isspace s)))"

fun str_join :: "string \<Rightarrow> string list \<Rightarrow> string" where
  "str_join sep [] = []"
| "str_join sep [x] = x"
| "str_join sep (x # y # ys) = x @ sep @ str_join sep (y # ys)"

section \<open>Agent-pipeline service: extraction of the sub-artifacts\<close>

text \<open>\<open>MarketingCrewService._extract_content_strategy\<close>\<close>

definition extract_content_strategy :: "string \<Rightarrow> string option" where
  "extract_content_strategy result =
     (if str_contains ''strategy'' (str_lower result) \<or> str_contains ''content'' (str_lower result)
      then Some result else None)"

text \<open>\<open>MarketingCrewService._extract_social_posts\<close>: the \<open>for\<close> loop over the lines, with
  the list \<open>posts\<close> it appends to, then the slice \<open>posts[:7]\<close>.\<close>

definition platforms :: "string list" where
  "platforms = [''instagram'', ''twitter'', ''linkedin'', ''facebook'']"

fun social_posts_loop :: "string list \<Rightarrow> string list \<Rightarrow> string list" where
  "social_posts_loop [] posts = posts"
| "social_posts_loop (line # lines) posts =
     social_posts_loop lines
       (if list_ex (\<lambda>platform. str_contains platform (str_lower line)) platforms
        then posts @ [str_strip line] else posts)"

definition extract_social_posts :: "string \<Rightarrow> string list" where
  "extract_social_posts result = take 7 (social_posts_loop (str_split result newline) [])"

text \<open>\<open>MarketingCrewService._extract_blog_outline\<close>\<close>

definition extract_blog_outline :: "string \<Rightarrow> string option" where
  "extract_blog_outline result =
     (if str_contains ''blog'' (str_lower result) \<or> str_contains ''outline'' (str_lower result)
      then Some result else None)"

text \<open>\<open>MarketingCrewService._extract_campaign_ideas\<close>\<close>

fun campaign_ideas_loop :: "string list \<Rightarrow> string list \<Rightarrow> string list" where
  "campaign_ideas_loop [] ideas = ideas"
| "campaign_ideas_loop (line # lines) ideas =
     campaign_ideas_loop lines
       (if str_contains ''campaign'' (str_lower line) \<or> str_contains ''idea'' (str_lower line)
        then ideas @ [str_strip line] else ideas)"

definition extract_campaign_ideas :: "string \<Rightarrow> string list" where
  "extract_campaign_ideas result = take 5 (campaign_ideas_loop (str_split result newline) [])"

section \<open>Shared data model\<close>

text \<open>An exception is modelled by its textual description \<open>str(e)\<close>, the only part
  of it the services read. A call that may raise returns \<open>error + 'a\<close>, with \<open>Inl\<close> the
  raised exception.\<close>

datatype error = Exception string

text \<open>\<open>TaskStatus\<close>, a string-valued enumeration: \<open>TaskStatus_value\<close> is \<open>.value\<close> and
  \<open>TaskStatus_of_value\<close> is the call \<open>TaskStatus(s)\<close>, which raises \<open>ValueError\<close> on a
  string that is no member's value.\<close>

datatype TaskStatus = PENDING | IN_PROGRESS | COMPLETED | FAILED | CANCELLED

fun TaskStatus_value :: "TaskStatus \<Rightarrow> string" where
  "TaskStatus_value PENDING = ''pending''"
| "TaskStatus_value IN_PROGRESS = ''in_progress''"
| "TaskStatus_value COMPLETED = ''completed''"
| "TaskStatus_value FAILED = ''failed''"
| "TaskStatus_value CANCELLED = ''cancelled''"

definition TaskStatus_of_value :: "string \<Rightarrow> error + TaskStatus" where
  "TaskStatus_of_value s =
     (if s = ''pending'' then Inr PENDING
      else if s = ''in_progress'' then Inr IN_PROGRESS
      else if s = ''completed'' then Inr COMPLETED
      else if s = ''failed'' then Inr FAILED
      else if s = ''cancelled'' then Inr CANCELLED
      else Inl (Exception (s @ '' is not a valid TaskStatus'')))"

text \<open>\<open>MarketingTask\<close>, the row of table \<open>marketing_tasks\<close>. The column \<open>id\<close> is the field
  \<open>row_id\<close>; \<open>status\<close> is a \<open>String\<close> column and holds the status value as text; a nullable
  column is an option; a timestamp is an integer clock reading.\<close>

record MarketingTask =
  row_id :: nat
  task_id :: string
  topic :: string
  status :: string
  created_at :: int
  completed_at :: "int option"
  result :: "string option"
  content_strategy :: "string option"
  social_media_posts :: "string option"
  blog_outline :: "string option"
  campaign_ideas :: "string option"
  error_message :: "string option"
  language :: "string option"

text \<open>\<open>TaskResult\<close>, the record the API returns (fields prefixed \<open>tr_\<close>).\<close>

record TaskResult =
  tr_task_id :: string
  tr_topic :: string
  tr_status :: TaskStatus
  tr_created_at :: int
  tr_completed_at :: "int option"
  tr_content_strategy :: "string option"
  tr_social_media_posts :: "string list option"
  tr_blog_outline :: "string option"
  tr_campaign_ideas :: "string list option"
  tr_error_message :: "string option"

section \<open>Agent-pipeline service: execution\<close>

text \<open>
  The orchestration library and the language-model backend are outside the repository;
  they are a parameter. \<open>create_marketing_crew\<close> builds four agents, four tasks and the
  crew from the topic and the output language only, so the constructors are one function
  \<open>Crew\<close> of these two strings, which returns the crew or raises; \<open>kickoff\<close> is
  \<open>str(crew.kickoff())\<close>, which returns the combined transcript or raises;
  \<open>app_language\<close> is \<open>settings.app_language\<close>.
\<close>

record 'crew crew_library =
  app_language :: string
  Crew :: "string \<Rightarrow> string \<Rightarrow> error + 'crew"
  kickoff :: "'crew \<Rightarrow> error + string"

text \<open>\<open>MarketingCrewService.create_marketing_crew\<close>; \<open>language or settings.app_language\<close>
  takes the default for \<open>None\<close> and for the empty string.\<close>

definition create_marketing_crew ::
  "'crew crew_library \<Rightarrow> string \<Rightarrow> string option \<Rightarrow> error + 'crew" where
  "create_marketing_crew lib tpc lang =
     (let output_language =
            (case lang of None \<Rightarrow> app_language lib
             | Some l \<Rightarrow> if l = [] then app_language lib else l)
      in Crew lib tpc output_language)"

text \<open>The result bundle is a dictionary with a fixed set of possible keys: a field is
  \<open>None\<close> when the dictionary has no such key. The keys \<open>content_strategy\<close> and
  \<open>blog_outline\<close> may be present with the value \<open>None\<close>.\<close>

record result_bundle =
  b_status :: "string option"
  b_topic :: "string option"
  b_result :: "string option"
  b_content_strategy :: "string option option"
  b_social_media_posts :: "string list option"
  b_blog_outline :: "string option option"
  b_campaign_ideas :: "string list option"
  b_error_message :: "string option"

text \<open>\<open>MarketingCrewService.execute_marketing_task\<close>: the crew is built before the
  \<open>try\<close>; the \<open>try\<close> covers the kickoff and the extraction.\<close>

definition execute_marketing_task ::
  "'crew crew_library \<Rightarrow> string \<Rightarrow> string option \<Rightarrow> error + result_bundle" where
  "execute_marketing_task lib tpc lang =
     (case create_marketing_crew lib tpc lang of
        Inl e \<Rightarrow> Inl e
      | Inr crew \<Rightarrow>
          (case kickoff lib crew of
             Inr result_str \<Rightarrow>
               Inr \<lparr>b_status = Some ''completed'',
                    b_topic = Some tpc,
                    b_result = Some result_str,
                    b_content_strategy = Some (extract_content_strategy result_str),
                    b_social_media_posts = Some (extract_social_posts result_str),
                    b_blog_outline = Some (extract_blog_outline result_str),
                    b_campaign_ideas = Some (extract_campaign_ideas result_str),
                    b_error_message = None\<rparr>
           | Inl (Exception msg) \<Rightarrow>
               Inr \<lparr>b_status = Some ''failed'',
                    b_topic = Some tpc,
                    b_result = None,
                    b_content_strategy = None,
                    b_social_media_posts = None,
                    b_blog_outline = None,
                    b_campaign_ideas = None,
                    b_error_message = Some msg\<rparr>))"

section \<open>Task orchestration service\<close>

text \<open>
  The state of a \<open>TaskService\<close> on a reachable store: the rows of \<open>marketing_tasks\<close> and the
  dictionary \<open>_running_tasks\<close>. A session object is the row it was loaded from; assigning
  its attributes and committing writes it back over the row with its \<open>task_id\<close> (the
  column is unique), which is \<open>db_commit\<close>.
\<close>

record service =
  db :: "MarketingTask list"
  running_tasks :: "string \<rightharpoonup> bool"

definition db_commit :: "MarketingTask \<Rightarrow> MarketingTask list \<Rightarrow> MarketingTask list" where
  "db_commit task rows = map (\<lambda>row. if task_id row = task_id task then task else row) rows"

text \<open>\<open>self._running_tasks.get(task_id, False)\<close>\<close>

definition running_get :: "(string \<rightharpoonup> bool) \<Rightarrow> string \<Rightarrow> bool" where
  "running_get running tid = (case running tid of None \<Rightarrow> False | Some flag \<Rightarrow> flag)"

text \<open>\<open>TaskService.create_task\<close>; \<open>uuid\<close> is the value of \<open>str(uuid.uuid4())\<close>, the store
  assigns the next \<open>id\<close> and the creation time.\<close>

definition create_task ::
  "string \<Rightarrow> int \<Rightarrow> service \<Rightarrow> string \<Rightarrow> string option \<Rightarrow> MarketingTask \<times> service" where
  "create_task uuid now s tpc lang =
     (let task = \<lparr>row_id = Suc (foldr max (map row_id (db s)) 0),
                  task_id = uuid,
                  topic = tpc,
                  status = TaskStatus_value PENDING,
                  created_at = now,
                  completed_at = None,
                  result = None,
                  content_strategy = None,
                  social_media_posts = None,
                  blog_outline = None,
                  campaign_ideas = None,
                  error_message = None,
                  language = lang\<rparr>
      in (task, s\<lparr>db := db s @ [task]\<rparr>))"

text \<open>\<open>TaskService.get_task\<close>\<close>

definition get_task :: "MarketingTask list \<Rightarrow> string \<Rightarrow> MarketingTask option" where
  "get_task rows tid = find (\<lambda>row. task_id row = tid) rows"

text \<open>\<open>TaskService.cancel_task\<close>\<close>

definition cancel_task :: "int \<Rightarrow> service \<Rightarrow> string \<Rightarrow> MarketingTask option \<times> service" where
  "cancel_task now s tid =
     (case get_task (db s) tid of
        None \<Rightarrow> (None, s)
      | Some task \<Rightarrow>
          if status task \<notin> set [TaskStatus_value PENDING, TaskStatus_value IN_PROGRESS]
          then (Some task, s)
          else
            (let running = (running_tasks s)(tid \<mapsto> False);
                 task' = task\<lparr>status := TaskStatus_value CANCELLED,
                              completed_at := Some now,
                              error_message := Some ''Task was cancelled by user''\<rparr>
             in (Some task', \<lparr>db = db_commit task' (db s), running_tasks = running\<rparr>)))"

text \<open>
  \<open>execute_task\<close> is a coroutine: while it awaits the commit of \<open>in_progress\<close>, and while
  the pipeline runs, the service may serve other requests. The requests modelled are calls
  of \<open>cancel_task\<close>, each with its clock reading, served one after the other.
\<close>

datatype request = CancelRequest string int

fun serve :: "request \<Rightarrow> service \<Rightarrow> service" where
  "serve (CancelRequest tid now) s = snd (cancel_task now s tid)"

definition serve_all :: "request list \<Rightarrow> service \<Rightarrow> service" where
  "serve_all requests s = fold serve requests s"

text \<open>\<open>TaskService.execute_task\<close>, in the order of the source: the lookup and the guard on
  \<open>cancelled\<close>; the flag and \<open>in_progress\<close>; the checkpoint before the pipeline; the call
  of the pipeline; the checkpoint after it; the results; and the handler of an exception.
  \<open>during_commit\<close> are the requests served while the first commit is awaited,
  \<open>during_pipeline\<close> those served until the pipeline call ends.\<close>

definition started :: "service \<Rightarrow> string \<Rightarrow> MarketingTask \<Rightarrow> MarketingTask \<times> service" where
  "started s tid task =
     (let running = (running_tasks s)(tid \<mapsto> True);
          task1 = task\<lparr>status := TaskStatus_value IN_PROGRESS\<rparr>
      in (task1, \<lparr>db = db_commit task1 (db s), running_tasks = running\<rparr>))"

definition store_results :: "int \<Rightarrow> result_bundle \<Rightarrow> MarketingTask \<Rightarrow> MarketingTask" where
  "store_results now res task =
     task\<lparr>status := (case b_status res of None \<Rightarrow> TaskStatus_value FAILED | Some v \<Rightarrow> v),
          completed_at := Some now,
          result := Some (case b_result res of None \<Rightarrow> [] | Some v \<Rightarrow> v),
          content_strategy := (case b_content_strategy res of None \<Rightarrow> None | Some v \<Rightarrow> v),
          social_media_posts :=
            Some (str_join [newline] (case b_social_media_posts res of None \<Rightarrow> [] | Some v \<Rightarrow> v)),
          blog_outline := (case b_blog_outline res of None \<Rightarrow> None | Some v \<Rightarrow> v),
          campaign_ideas :=
            Some (str_join [newline] (case b_campaign_ideas res of None \<Rightarrow> [] | Some v \<Rightarrow> v)),
          error_message := b_error_message res\<rparr>"

definition execute_task ::
  "'crew crew_library \<Rightarrow> int \<Rightarrow> request list \<Rightarrow> request list \<Rightarrow> service \<Rightarrow> string
     \<Rightarrow> MarketingTask option \<times> service" where
  "execute_task lib now during_commit during_pipeline s tid =
     (case get_task (db s) tid of
        None \<Rightarrow> (None, s)
      | Some task \<Rightarrow>
          if status task = TaskStatus_value CANCELLED then (Some task, s)
          else
            (let (task1, s1) = started s tid task;
                 s2 = serve_all during_commit s1
             in if \<not> running_get (running_tasks s2) tid then
                  (let task2 = task1\<lparr>status := TaskStatus_value CANCELLED,
                                     completed_at := Some now,
                                     error_message := Some ''Task was cancelled before execution''\<rparr>
                   in (Some task2, s2\<lparr>db := db_commit task2 (db s2)\<rparr>))
                else
                  (let outcome = execute_marketing_task lib (topic task1) (language task1);
                       s3 = serve_all during_pipeline s2
                   in case outcome of
                        Inr res \<Rightarrow>
                          if \<not> running_get (running_tasks s3) tid then
                            (let task3 = task1\<lparr>status := TaskStatus_value CANCELLED,
                                               completed_at := Some now,
                                               error_message := Some ''Task was cancelled during execution''\<rparr>
                             in (Some task3,
                                 \<lparr>db = db_commit task3 (db s3),
                                  running_tasks = (running_tasks s3)(tid := None)\<rparr>))
                          else
                            (let task3 = store_results now res task1
                             in (Some task3,
                                 \<lparr>db = db_commit task3 (db s3),
                                  running_tasks = (running_tasks s3)(tid := None)\<rparr>))
                      | Inl (Exception msg) \<Rightarrow>
                          (let task3 =
                                 (if \<not> running_get (running_tasks s3) tid
                                  then task1\<lparr>status := TaskStatus_value CANCELLED,
                                             error_message := Some ''Task was cancelled''\<rparr>
                                  else task1\<lparr>status := TaskStatus_value FAILED,
                                             error_message := Some msg\<rparr>);
                               task4 = task3\<lparr>completed_at := Some now\<rparr>
                           in (Some task4,
                               \<lparr>db = db_commit task4 (db s3),
                                running_tasks = (running_tasks s3)(tid := None)\<rparr>)))))"

text \<open>\<open>TaskService.delete_task\<close>\<close>

definition delete_task :: "service \<Rightarrow> string \<Rightarrow> bool \<times> service" where
  "delete_task s tid =
     (case get_task (db s) tid of
        None \<Rightarrow> (False, s)
      | Some task \<Rightarrow>
          (let running1 =
                 (if status task \<in> set [TaskStatus_value PENDING, TaskStatus_value IN_PROGRESS]
                  then (running_tasks s)(tid \<mapsto> False) else running_tasks s);
               running2 = running1(tid := None)
           in (True, \<lparr>db = filter (\<lambda>row. task_id row \<noteq> tid) (db s), running_tasks = running2\<rparr>)))"

text \<open>\<open>TaskService.task_to_result\<close>; a text column is split when it is truthy, that is
  neither \<open>None\<close> nor empty.\<close>

definition split_if_truthy :: "string option \<Rightarrow> string list option" where
  "split_if_truthy column =
     (case column of
        None \<Rightarrow> None
      | Some text \<Rightarrow> if text = [] then None else Some (str_split text newline))"

definition task_to_result :: "MarketingTask \<Rightarrow> error + TaskResult" where
  "task_to_result task =
     (case TaskStatus_of_value (status task) of
        Inl e \<Rightarrow> Inl e
      | Inr st \<Rightarrow>
          Inr \<lparr>tr_task_id = task_id task,
               tr_topic = topic task,
               tr_status = st,
               tr_created_at = created_at task,
               tr_completed_at = completed_at task,
               tr_content_strategy = content_strategy task,
               tr_social_media_posts = split_if_truthy (social_media_posts task),
               tr_blog_outline = blog_outline task,
               tr_campaign_ideas = split_if_truthy (campaign_ideas task),
               tr_error_message = error_message task\<rparr>)"

section \<open>HTTP API: listing\<close>

text \<open>A session on the store: its rows, or the failure every statement raises when the
  store cannot be reached.\<close>

datatype database = Database "MarketingTask list" | Unreachable string

text \<open>\<open>TaskService.get_all_tasks\<close>: \<open>ORDER BY created_at DESC\<close>; rows with equal creation
  times come in the order the store yields them, here the reverse of a stable sort.\<close>

definition get_all_tasks :: "database \<Rightarrow> error + MarketingTask list" where
  "get_all_tasks d =
     (case d of
        Unreachable msg \<Rightarrow> Inl (Exception msg)
      | Database rows \<Rightarrow> Inr (rev (sort_key created_at rows)))"

text \<open>The comprehension \<open>[task_service.task_to_result(task) for task in tasks]\<close>: the first
  conversion that raises ends it.\<close>

fun results_of :: "MarketingTask list \<Rightarrow> error + TaskResult list" where
  "results_of [] = Inr []"
| "results_of (task # tasks) =
     (case task_to_result task of
        Inl e \<Rightarrow> Inl e
      | Inr r \<Rightarrow> (case results_of tasks of Inl e \<Rightarrow> Inl e | Inr rs \<Rightarrow> Inr (r # rs)))"

text \<open>A handler answers with a status code and a body, or raises \<open>HTTPException\<close>.\<close>

datatype 'a response = Response nat 'a | HTTPException nat string

text \<open>\<open>list_tasks\<close>, the handler of \<open>GET /tasks\<close>\<close>

definition list_tasks :: "database \<Rightarrow> TaskResult list response" where
  "list_tasks d =
     (case get_all_tasks d of
        Inl e \<Rightarrow> Response 200 []
      | Inr tasks \<Rightarrow>
          (case results_of tasks of
             Inl e \<Rightarrow> Response 200 []
           | Inr rs \<Rightarrow> Response 200 rs))"

section \<open>Notions the properties are stated with\<close>

text \<open>A keyword occurs in a text when the text is some prefix, the keyword, and some
  suffix. This is the substring relation, stated without reference to the search.\<close>

definition occurs_in :: "string \<Rightarrow> string \<Rightarrow> bool" where
  "occurs_in keyword text = (\<exists>before after. text = before @ keyword @ after)"

text \<open>A status is terminal when it is \<open>completed\<close>, \<open>failed\<close> or \<open>cancelled\<close>.\<close>

definition terminal :: "string \<Rightarrow> bool" where
  "terminal st \<longleftrightarrow>
     st = TaskStatus_value COMPLETED \<or> st = TaskStatus_value FAILED \<or> st = TaskStatus_value CANCELLED"

text \<open>The state of the service at the two checkpoints of \<open>execute_task\<close>: before the
  pipeline is called, after the requests served during the first commit; and when the
  pipeline call has ended, after the requests served meanwhile.\<close>

definition at_first_checkpoint :: "request list \<Rightarrow> service \<Rightarrow> MarketingTask \<Rightarrow> service" where
  "at_first_checkpoint during_commit s task =
     serve_all during_commit (snd (started s (task_id task) task))"

definition at_second_checkpoint ::
  "request list \<Rightarrow> request list \<Rightarrow> service \<Rightarrow> MarketingTask \<Rightarrow> service" where
  "at_second_checkpoint during_commit during_pipeline s task =
     serve_all during_pipeline (at_first_checkpoint during_commit s task)"

section \<open>Example inputs\<close>

text \<open>A pending task, the same task completed and cancelled, and three libraries: one whose
  pipeline returns a transcript, one whose kickoff raises, one whose construction raises.\<close>

definition example_task :: MarketingTask where
  "example_task =
     \<lparr>row_id = 1, task_id = ''t1'', topic = ''Launch eco-friendly product line'',
      status = ''pending'', created_at = 10, completed_at = None, result = None,
      content_strategy = None, social_media_posts = None, blog_outline = None,
      campaign_ideas = None, error_message = None, language = None\<rparr>"

definition example_store :: service where
  "example_store = \<lparr>db = [example_task], running_tasks = Map.empty\<rparr>"

definition completed_task :: MarketingTask where
  "completed_task = example_task\<lparr>status := ''completed'', completed_at := Some 12, result := Some ''done''\<rparr>"

definition completed_store :: service where
  "completed_store = \<lparr>db = [completed_task], running_tasks = Map.empty\<rparr>"

definition cancelled_task :: MarketingTask where
  "cancelled_task = example_task\<lparr>status := ''cancelled'', completed_at := Some 12,
     error_message := Some ''Task was cancelled by user''\<rparr>"

definition cancelled_store :: service where
  "cancelled_store = \<lparr>db = [cancelled_task], running_tasks = [''t1'' \<mapsto> False]\<rparr>"

definition plain_library :: "unit crew_library" where
  "plain_library = \<lparr>app_language = ''en'', Crew = (\<lambda>tpc lang. Inr ()), kickoff = (\<lambda>crew. Inr ''hello'')\<rparr>"

definition rate_limited_library :: "unit crew_library" where
  "rate_limited_library =
     \<lparr>app_language = ''en'', Crew = (\<lambda>tpc lang. Inr ()),
      kickoff = (\<lambda>crew. Inl (Exception ''rate limited''))\<rparr>"

definition unbuildable_library :: "unit crew_library" where
  "unbuildable_library =
     \<lparr>app_language = ''en'', Crew = (\<lambda>tpc lang. Inl (Exception ''rate limited'')),
      kickoff = (\<lambda>crew. Inr ''hello'')\<rparr>"

definition lines_task :: MarketingTask where
  "lines_task =
     example_task\<lparr>status := ''completed'', completed_at := Some 12,
       social_media_posts := Some (''line1'' @ [newline] @ ''line2'' @ [newline] @ ''line3'')\<rparr>"

definition later_task :: MarketingTask where
  "later_task = example_task\<lparr>row_id := 2, task_id := ''t2'', created_at := 11\<rparr>"

definition unreadable_task :: MarketingTask where
  "unreadable_task = example_task\<lparr>status := ''unknown''\<rparr>"

section \<open>Lemmas on strings\<close>

lemma take_length_eq_prefix: "take (length sub) s = sub \<longleftrightarrow> prefix sub s"
  by (metis prefix_def append_eq_conv_conj take_is_prefix)

lemma str_contains_sublist: "str_contains sub s \<longleftrightarrow> sublist sub s"
  by (induction s) (simp_all add: sublist_Cons_right take_length_eq_prefix del: take_Suc_Cons)

lemma str_contains_occurs_in: "str_contains sub s = occurs_in sub s"
  by (simp add: str_contains_sublist sublist_def occurs_in_def)

lemma social_posts_loop_eq:
  "social_posts_loop lines posts =
     posts @ map str_strip (filter (\<lambda>line. list_ex (\<lambda>platform. str_contains platform (str_lower line)) platforms) lines)"
  by (induction lines arbitrary: posts) simp_all

lemma campaign_ideas_loop_eq:
  "campaign_ideas_loop lines ideas =
     ideas @ map str_strip (filter (\<lambda>line. str_contains ''campaign'' (str_lower line) \<or> str_contains ''idea'' (str_lower line)) lines)"
  by (induction lines arbitrary: ideas) simp_all

lemma str_split_not_Nil: "str_split s sep \<noteq> []"
  by (induction s) (simp_all split: list.splits)

lemma str_join_Cons_Cons: "str_join sep ((a # x) # xs) = a # str_join sep (x # xs)"
  by (cases xs) simp_all

lemma str_join_split: "str_join [sep] (str_split s sep) = s"
proof (induction s)
  case Nil
  then show ?case by simp
next
  case (Cons c cs)
  obtain piece pieces where sp: "str_split cs sep = piece # pieces"
    using str_split_not_Nil [of cs sep] by (cases "str_split cs sep") auto
  show ?case
  proof (cases "c = sep")
    case True
    then show ?thesis using Cons sp by simp
  next
    case False
    then show ?thesis using Cons sp by (simp add: str_join_Cons_Cons)
  qed
qed

lemma str_split_no_sep: "piece \<in> set (str_split s sep) \<Longrightarrow> sep \<notin> set piece"
  by (induction s arbitrary: piece) (auto split: if_splits list.splits)

lemma str_split_append_sep:
  "sep \<notin> set x \<Longrightarrow> str_split (x @ sep # rest) sep = x # str_split rest sep"
  by (induction x) (auto split: list.splits)

lemma str_split_single: "sep \<notin> set x \<Longrightarrow> str_split x sep = [x]"
  by (induction x) (auto split: list.splits)

lemma str_split_join:
  "lines \<noteq> [] \<Longrightarrow> \<forall>line \<in> set lines. sep \<notin> set line \<Longrightarrow>
     str_split (str_join [sep] lines) sep = lines"
proof (induction lines)
  case Nil
  then show ?case by simp
next
  case (Cons x xs)
  show ?case
  proof (cases xs)
    case Nil
    then show ?thesis using Cons.prems by (simp add: str_split_single)
  next
    case (Cons y ys)
    then have "str_split (str_join [sep] xs) sep = xs"
      using Cons.IH Cons.prems \<open>\<forall>line\<in>set (x # xs). sep \<notin> set line\<close> by simp
    then show ?thesis
      using Cons \<open>\<forall>line\<in>set (x # xs). sep \<notin> set line\<close> by (simp add: str_split_append_sep)
  qed
qed

section \<open>Lemmas on the store and on \<open>execute_task\<close>\<close>

lemma get_task_task_id: "get_task rows tid = Some task \<Longrightarrow> task_id task = tid"
  by (auto simp: get_task_def find_Some_iff)

lemma get_task_None_iff: "get_task rows tid = None \<longleftrightarrow> tid \<notin> set (map task_id rows)"
  by (auto simp: get_task_def find_None_iff)

lemma task_ids_db_commit: "map task_id (db_commit t rows) = map task_id rows"
  by (induction rows) (simp_all add: db_commit_def)

lemma get_task_db_commit:
  "get_task (db_commit t rows) tid =
     (if tid = task_id t then (if get_task rows tid = None then None else Some t)
      else get_task rows tid)"
  by (induction rows) (auto simp: db_commit_def get_task_def)

lemma task_ids_cancel_task: "map task_id (db (snd (cancel_task now s tid))) = map task_id (db s)"
  by (simp add: cancel_task_def task_ids_db_commit Let_def split: option.splits)

lemma task_ids_serve: "map task_id (db (serve r s)) = map task_id (db s)"
  by (cases r) (simp add: task_ids_cancel_task)

lemma task_ids_serve_all: "map task_id (db (serve_all rs s)) = map task_id (db s)"
  unfolding serve_all_def by (induction rs arbitrary: s) (simp_all add: task_ids_serve)

lemma task_ids_started: "map task_id (db (snd (started s tid task))) = map task_id (db s)"
  by (simp add: started_def Let_def task_ids_db_commit)

lemma get_task_first_checkpoint:
  "get_task (db s) tid \<noteq> None \<Longrightarrow> get_task (db (at_first_checkpoint dc s task)) tid \<noteq> None"
  by (simp add: get_task_None_iff at_first_checkpoint_def task_ids_serve_all task_ids_started)

lemma get_task_second_checkpoint:
  "get_task (db s) tid \<noteq> None \<Longrightarrow> get_task (db (at_second_checkpoint dc dp s task)) tid \<noteq> None"
  by (simp add: get_task_None_iff at_second_checkpoint_def at_first_checkpoint_def
      task_ids_serve_all task_ids_started)

lemma execute_task_missing: "get_task (db s) tid = None \<Longrightarrow> execute_task lib now dc dp s tid = (None, s)"
  by (simp add: execute_task_def)

lemma execute_task_cancelled:
  "get_task (db s) tid = Some task \<Longrightarrow> status task = TaskStatus_value CANCELLED \<Longrightarrow>
     execute_task lib now dc dp s tid = (Some task, s)"
  by (simp add: execute_task_def)

lemma execute_task_first_checkpoint:
  assumes "get_task (db s) tid = Some task" and "status task \<noteq> TaskStatus_value CANCELLED"
    and "\<not> running_get (running_tasks (at_first_checkpoint dc s task)) tid"
  shows "execute_task lib now dc dp s tid =
           (let s2 = at_first_checkpoint dc s task;
                task2 = task\<lparr>status := TaskStatus_value CANCELLED, completed_at := Some now,
                             error_message := Some ''Task was cancelled before execution''\<rparr>
            in (Some task2, s2\<lparr>db := db_commit task2 (db s2)\<rparr>))"
  using assms get_task_task_id [OF assms(1)]
  by (simp add: execute_task_def at_first_checkpoint_def started_def Let_def)

lemma execute_task_returned:
  assumes "get_task (db s) tid = Some task" and "status task \<noteq> TaskStatus_value CANCELLED"
    and "running_get (running_tasks (at_first_checkpoint dc s task)) tid"
    and "execute_marketing_task lib (topic task) (language task) = Inr res"
  shows "execute_task lib now dc dp s tid =
           (let s3 = at_second_checkpoint dc dp s task;
                task3 = (if \<not> running_get (running_tasks s3) tid
                         then task\<lparr>status := TaskStatus_value CANCELLED, completed_at := Some now,
                                    error_message := Some ''Task was cancelled during execution''\<rparr>
                         else store_results now res (task\<lparr>status := TaskStatus_value IN_PROGRESS\<rparr>))
            in (Some task3, \<lparr>db = db_commit task3 (db s3), running_tasks = (running_tasks s3)(tid := None)\<rparr>))"
  using assms get_task_task_id [OF assms(1)]
  by (simp add: execute_task_def at_first_checkpoint_def at_second_checkpoint_def started_def Let_def)

lemma execute_task_raised:
  assumes "get_task (db s) tid = Some task" and "status task \<noteq> TaskStatus_value CANCELLED"
    and "running_get (running_tasks (at_first_checkpoint dc s task)) tid"
    and "execute_marketing_task lib (topic task) (language task) = Inl (Exception msg)"
  shows "execute_task lib now dc dp s tid =
           (let s3 = at_second_checkpoint dc dp s task;
                task4 = (if \<not> running_get (running_tasks s3) tid
                         then task\<lparr>status := TaskStatus_value CANCELLED,
                                    error_message := Some ''Task was cancelled'',
                                    completed_at := Some now\<rparr>
                         else task\<lparr>status := TaskStatus_value FAILED,
                                    error_message := Some msg,
                                    completed_at := Some now\<rparr>)
            in (Some task4, \<lparr>db = db_commit task4 (db s3), running_tasks = (running_tasks s3)(tid := None)\<rparr>))"
  using assms get_task_task_id [OF assms(1)]
  by (simp add: execute_task_def at_first_checkpoint_def at_second_checkpoint_def started_def Let_def)

section \<open>Lemmas on the listing and on the projection\<close>

lemma results_of_Inr:
  "results_of tasks = Inr rs \<longleftrightarrow> list_all2 (\<lambda>task r. task_to_result task = Inr r) tasks rs"
proof (induction tasks arbitrary: rs)
  case Nil
  then show ?case by auto
next
  case (Cons task tasks)
  show ?case
  proof (cases "task_to_result task")
    case (Inl e)
    then show ?thesis by (auto simp: list_all2_Cons1)
  next
    case r: (Inr r)
    show ?thesis
    proof (cases "results_of tasks")
      case (Inl e)
      then have "\<not> list_all2 (\<lambda>task r. task_to_result task = Inr r) tasks rs'" for rs'
        using Cons.IH [of rs'] by simp
      then show ?thesis using r Inl by (auto simp: list_all2_Cons1)
    next
      case (Inr rs0)
      then have "list_all2 (\<lambda>task r. task_to_result task = Inr r) tasks rs' \<longleftrightarrow> rs' = rs0" for rs'
        using Cons.IH [of rs'] by auto
      then show ?thesis using r Inr by (auto simp: list_all2_Cons1)
    qed
  qed
qed

lemma results_of_Inl:
  "(\<exists>e. results_of tasks = Inl e) \<longleftrightarrow> (\<exists>task \<in> set tasks. \<exists>e. task_to_result task = Inl e)"
  by (induction tasks) (auto split: sum.splits)

lemma results_of_total:
  "\<forall>task \<in> set tasks. \<exists>r. task_to_result task = Inr r \<Longrightarrow> \<exists>rs. results_of tasks = Inr rs"
  by (induction tasks) (auto split: sum.splits)

lemma str_split_three_lines:
  "str_split (''line1'' @ [newline] @ ''line2'' @ [newline] @ ''line3'') newline =
     [''line1'', ''line2'', ''line3'']"
  by code_simp

section \<open>Lemmas on the outcomes of \<open>execute_task\<close>\<close>

lemma get_task_after_commit:
  assumes "get_task (db s) tid = Some task" and "task_id task' = tid"
  shows "get_task (db_commit task' (db (at_second_checkpoint dc dp s task0))) tid = Some task'"
  using assms get_task_second_checkpoint [of s tid dc dp task0]
  by (simp add: get_task_db_commit)

lemma task_to_result_failed:
  "status task = ''failed'' \<Longrightarrow> \<exists>r. task_to_result task = Inr r \<and> tr_status r = FAILED \<and>
     tr_content_strategy r = content_strategy task \<and>
     tr_social_media_posts r = split_if_truthy (social_media_posts task) \<and>
     tr_blog_outline r = blog_outline task \<and>
     tr_campaign_ideas r = split_if_truthy (campaign_ideas task) \<and>
     tr_error_message r = error_message task"
  by (simp add: task_to_result_def TaskStatus_of_value_def)

lemma task_to_result_completed:
  "status task = ''completed'' \<Longrightarrow> \<exists>r. task_to_result task = Inr r \<and> tr_status r = COMPLETED \<and>
     tr_social_media_posts r = split_if_truthy (social_media_posts task) \<and>
     tr_campaign_ideas r = split_if_truthy (campaign_ideas task)"
  by (simp add: task_to_result_def TaskStatus_of_value_def)

lemma b_status_execute_marketing_task:
  "execute_marketing_task lib tpc lang = Inr res \<Longrightarrow>
     b_status res = Some ''completed'' \<or> b_status res = Some ''failed''"
  by (auto simp: execute_marketing_task_def split: sum.splits error.splits)

lemma cancel_task_keeps_terminal:
  assumes "get_task (db s) tid = Some task" and "terminal (status task)"
  shows "get_task (db (snd (cancel_task now s other))) tid = Some task"
proof (cases "other = tid")
  case True
  then show ?thesis
    using assms by (auto simp: cancel_task_def terminal_def)
next
  case False
  show ?thesis
  proof (cases "get_task (db s) other")
    case None
    then show ?thesis using assms by (simp add: cancel_task_def)
  next
    case (Some t)
    then have "task_id t = other" by (rule get_task_task_id)
    then show ?thesis
      using assms Some False by (simp add: cancel_task_def Let_def get_task_db_commit)
  qed
qed

lemma serve_all_keeps_terminal:
  "get_task (db s) tid = Some task \<Longrightarrow> terminal (status task) \<Longrightarrow>
     get_task (db (serve_all requests s)) tid = Some task"
  unfolding serve_all_def
proof (induction requests arbitrary: s)
  case Nil
  then show ?case by simp
next
  case (Cons r requests)
  obtain other now where r: "r = CancelRequest other now" by (cases r)
  have "get_task (db (serve r s)) tid = Some task"
    using Cons.prems by (simp add: r cancel_task_keeps_terminal)
  then show ?case
    using Cons.IH Cons.prems(2) by simp
qed

lemma execute_task_other_keeps_terminal:
  assumes "get_task (db s) tid = Some task" and "terminal (status task)" and "other \<noteq> tid"
  shows "get_task (db (snd (execute_task lib now dc dp s other))) tid = Some task"
proof (cases "get_task (db s) other")
  case None
  then show ?thesis using assms by (simp add: execute_task_def)
next
  case (Some t)
  then have t: "task_id t = other" by (rule get_task_task_id)
  let ?s1 = "snd (started s other t)"
  have s1: "get_task (db ?s1) tid = Some task"
    using assms t by (simp add: started_def Let_def get_task_db_commit)
  have s2: "get_task (db (serve_all dc ?s1)) tid = Some task"
    using s1 assms(2) by (rule serve_all_keeps_terminal)
  have s3: "get_task (db (serve_all dp (serve_all dc ?s1))) tid = Some task"
    using s2 assms(2) by (rule serve_all_keeps_terminal)
  show ?thesis
    using Some t assms(1,3) s2 s3
    by (auto simp: execute_task_def Let_def get_task_db_commit store_results_def started_def
        split: sum.splits error.splits prod.splits)
qed

lemma find_append_Some: "find P xs = Some x \<Longrightarrow> find P (xs @ ys) = Some x"
  by (induction xs) (auto split: if_splits)

lemma create_task_keeps:
  "get_task (db s) tid = Some task \<Longrightarrow>
     get_task (db (snd (create_task uuid now s tpc lang))) tid = Some task"
  by (simp add: create_task_def Let_def get_task_def find_append_Some)

section \<open>The agent-pipeline service\<close>

text \<open>
  C1, as amended. \<open>execute_marketing_task\<close> builds the crew before its \<open>try\<close>: a failure of
  the construction is raised to the caller. Once the crew is built it never raises: a
  failure of the execution gives the bundle with status \<open>failed\<close>, the topic and the
  failure's description as error message, and a success gives the bundle with status
  \<open>completed\<close>, the topic, the transcript and the four extracted artifacts.
\<close>

theorem execute_marketing_task_outcomes:
  "(create_marketing_crew lib tpc lang = Inl e \<longrightarrow> execute_marketing_task lib tpc lang = Inl e) \<and>
   (create_marketing_crew lib tpc lang = Inr crew \<and> kickoff lib crew = Inl (Exception msg) \<longrightarrow>
      execute_marketing_task lib tpc lang =
        Inr \<lparr>b_status = Some ''failed'', b_topic = Some tpc, b_result = None,
             b_content_strategy = None, b_social_media_posts = None, b_blog_outline = None,
             b_campaign_ideas = None, b_error_message = Some msg\<rparr>) \<and>
   (create_marketing_crew lib tpc lang = Inr crew \<and> kickoff lib crew = Inr transcript \<longrightarrow>
      execute_marketing_task lib tpc lang =
        Inr \<lparr>b_status = Some ''completed'', b_topic = Some tpc, b_result = Some transcript,
             b_content_strategy = Some (extract_content_strategy transcript),
             b_social_media_posts = Some (extract_social_posts transcript),
             b_blog_outline = Some (extract_blog_outline transcript),
             b_campaign_ideas = Some (extract_campaign_ideas transcript),
             b_error_message = None\<rparr>)"
  by (simp add: execute_marketing_task_def)

theorem execute_marketing_task_outcomes_witness:
  "execute_marketing_task rate_limited_library ''eco'' None =
     Inr \<lparr>b_status = Some ''failed'', b_topic = Some ''eco'', b_result = None,
          b_content_strategy = None, b_social_media_posts = None, b_blog_outline = None,
          b_campaign_ideas = None, b_error_message = Some ''rate limited''\<rparr> \<and>
   execute_marketing_task plain_library ''eco'' (Some ''es'') =
     Inr \<lparr>b_status = Some ''completed'', b_topic = Some ''eco'', b_result = Some ''hello'',
          b_content_strategy = Some None, b_social_media_posts = Some [],
          b_blog_outline = Some None, b_campaign_ideas = Some [], b_error_message = None\<rparr>"
proof -
  have c1: "create_marketing_crew rate_limited_library ''eco'' None = Inr ()"
    by (simp add: create_marketing_crew_def rate_limited_library_def)
  have k1: "kickoff rate_limited_library () = Inl (Exception ''rate limited'')"
    by (simp add: rate_limited_library_def)
  have c2: "create_marketing_crew plain_library ''eco'' (Some ''es'') = Inr ()"
    by (simp add: create_marketing_crew_def plain_library_def)
  have k2: "kickoff plain_library () = Inr ''hello''"
    by (simp add: plain_library_def)
  have x: "extract_content_strategy ''hello'' = None" "extract_social_posts ''hello'' = []"
    "extract_blog_outline ''hello'' = None" "extract_campaign_ideas ''hello'' = []"
    by code_simp+
  show ?thesis
    using execute_marketing_task_outcomes [of rate_limited_library "''eco''" None _ "()" "''rate limited''"]
      execute_marketing_task_outcomes [of plain_library "''eco''" "Some ''es''" _ "()" _ "''hello''"]
      c1 k1 c2 k2 x
    by simp
qed

theorem construction_failure_counterexample:
  "execute_marketing_task unbuildable_library ''eco'' None = Inl (Exception ''rate limited'')"
  by (simp add: execute_marketing_task_def create_marketing_crew_def unbuildable_library_def)

text \<open>
  C4, as amended. Content strategy and blog outline are the whole transcript when its
  lower-case form contains one of their two keywords, and absent otherwise. Social posts
  and campaign ideas are the lines whose lower-case form contains one of their keywords,
  in their order, each stripped of leading and trailing whitespace, cut after 7 and 5.
\<close>

theorem extraction_rules:
  "extract_content_strategy transcript =
     (if occurs_in ''strategy'' (str_lower transcript) \<or> occurs_in ''content'' (str_lower transcript)
      then Some transcript else None) \<and>
   extract_blog_outline transcript =
     (if occurs_in ''blog'' (str_lower transcript) \<or> occurs_in ''outline'' (str_lower transcript)
      then Some transcript else None) \<and>
   extract_social_posts transcript =
     take 7 (map str_strip
       (filter (\<lambda>line. occurs_in ''instagram'' (str_lower line) \<or> occurs_in ''twitter'' (str_lower line) \<or>
                       occurs_in ''linkedin'' (str_lower line) \<or> occurs_in ''facebook'' (str_lower line))
          (str_split transcript newline))) \<and>
   extract_campaign_ideas transcript =
     take 5 (map str_strip
       (filter (\<lambda>line. occurs_in ''campaign'' (str_lower line) \<or> occurs_in ''idea'' (str_lower line))
          (str_split transcript newline)))"
  by (simp add: extract_content_strategy_def extract_blog_outline_def extract_social_posts_def
      extract_campaign_ideas_def social_posts_loop_eq campaign_ideas_loop_eq platforms_def
      str_contains_occurs_in)

theorem extraction_rules_witness:
  "take 7 (map str_strip
       (filter (\<lambda>line. occurs_in ''instagram'' (str_lower line) \<or> occurs_in ''twitter'' (str_lower line) \<or>
                       occurs_in ''linkedin'' (str_lower line) \<or> occurs_in ''facebook'' (str_lower line))
          (str_split ('' Twitter: hi'' @ [newline] @ ''filler'') newline))) = [''Twitter: hi'']"
proof -
  have "extract_social_posts ('' Twitter: hi'' @ [newline] @ ''filler'') = [''Twitter: hi'']"
    by code_simp
  then show ?thesis
    using extraction_rules [of "'' Twitter: hi'' @ [newline] @ ''filler''"] by presburger
qed

theorem social_posts_stripped_counterexample:
  "str_split '' Twitter: hi'' newline = ['' Twitter: hi''] \<and>
   str_contains ''twitter'' (str_lower '' Twitter: hi'') \<and>
   extract_social_posts '' Twitter: hi'' = [''Twitter: hi'']"
  by code_simp

section \<open>The orchestration service and the API\<close>

text \<open>
  C5. For an existing row, \<open>cancel_task\<close> moves the row to \<open>cancelled\<close>, with \<open>completed_at\<close> the
  current time and \<open>error_message\<close> "Task was cancelled by user", and sets the flag of the
  identifier to false, exactly when the status is \<open>pending\<close> or \<open>in_progress\<close> (no other row
  and no other flag changes); for any other status it returns the row and changes nothing;
  for an unknown identifier it returns nothing and changes nothing.
\<close>

theorem cancel_task_contract:
  "(get_task (db s) tid = None \<longrightarrow> cancel_task now s tid = (None, s)) \<and>
   (\<forall>task. get_task (db s) tid = Some task \<longrightarrow>
      (if status task = TaskStatus_value PENDING \<or> status task = TaskStatus_value IN_PROGRESS
       then (let task' = task\<lparr>status := TaskStatus_value CANCELLED, completed_at := Some now,
                               error_message := Some ''Task was cancelled by user''\<rparr>;
                 s' = snd (cancel_task now s tid)
             in fst (cancel_task now s tid) = Some task' \<and>
                get_task (db s') tid = Some task' \<and>
                running_tasks s' tid = Some False \<and>
                (\<forall>other. other \<noteq> tid \<longrightarrow>
                   get_task (db s') other = get_task (db s) other \<and>
                   running_tasks s' other = running_tasks s other))
       else cancel_task now s tid = (Some task, s)))"
proof (intro conjI allI impI)
  assume "get_task (db s) tid = None"
  then show "cancel_task now s tid = (None, s)"
    by (simp add: cancel_task_def)
next
  fix task
  assume found: "get_task (db s) tid = Some task"
  then have tid: "task_id task = tid"
    by (rule get_task_task_id)
  show "if status task = TaskStatus_value PENDING \<or> status task = TaskStatus_value IN_PROGRESS
       then (let task' = task\<lparr>status := TaskStatus_value CANCELLED, completed_at := Some now,
                               error_message := Some ''Task was cancelled by user''\<rparr>;
                 s' = snd (cancel_task now s tid)
             in fst (cancel_task now s tid) = Some task' \<and>
                get_task (db s') tid = Some task' \<and>
                running_tasks s' tid = Some False \<and>
                (\<forall>other. other \<noteq> tid \<longrightarrow>
                   get_task (db s') other = get_task (db s) other \<and>
                   running_tasks s' other = running_tasks s other))
       else cancel_task now s tid = (Some task, s)"
    using found tid
    by (auto simp: cancel_task_def Let_def get_task_db_commit)
qed

theorem cancel_task_contract_witness:
  "fst (cancel_task 20 example_store ''t1'') =
     Some (example_task\<lparr>status := ''cancelled'', completed_at := Some 20,
             error_message := Some ''Task was cancelled by user''\<rparr>) \<and>
   get_task (db (snd (cancel_task 20 example_store ''t1''))) ''t1'' =
     Some (example_task\<lparr>status := ''cancelled'', completed_at := Some 20,
             error_message := Some ''Task was cancelled by user''\<rparr>) \<and>
   running_tasks (snd (cancel_task 20 example_store ''t1'')) ''t1'' = Some False \<and>
   fst (cancel_task 20 completed_store ''t1'') = Some completed_task \<and>
   db (snd (cancel_task 20 completed_store ''t1'')) = db completed_store \<and>
   fst (cancel_task 20 example_store ''t9'') = None"
proof -
  have a: "get_task (db example_store) ''t1'' = Some example_task"
    by (simp add: get_task_def example_store_def example_task_def)
  have b: "get_task (db completed_store) ''t1'' = Some completed_task"
    by (simp add: get_task_def completed_store_def completed_task_def example_task_def)
  have c: "get_task (db example_store) ''t9'' = None"
    by (simp add: get_task_def example_store_def example_task_def)
  have sa: "status example_task = ''pending''" and sb: "status completed_task = ''completed''"
    by (simp_all add: completed_task_def example_task_def)
  have 1: "fst (cancel_task 20 example_store ''t1'') =
     Some (example_task\<lparr>status := ''cancelled'', completed_at := Some 20,
             error_message := Some ''Task was cancelled by user''\<rparr>) \<and>
   get_task (db (snd (cancel_task 20 example_store ''t1''))) ''t1'' =
     Some (example_task\<lparr>status := ''cancelled'', completed_at := Some 20,
             error_message := Some ''Task was cancelled by user''\<rparr>) \<and>
   running_tasks (snd (cancel_task 20 example_store ''t1'')) ''t1'' = Some False"
    using cancel_task_contract [of example_store "''t1''" 20] a sa by (simp add: Let_def)
  have 2: "cancel_task 20 completed_store ''t1'' = (Some completed_task, completed_store)"
    using cancel_task_contract [of completed_store "''t1''" 20] b sb by simp
  have 3: "cancel_task 20 example_store ''t9'' = (None, example_store)"
    using cancel_task_contract [of example_store "''t9''" 20] c by simp
  show ?thesis
    using 1 2 3 by simp
qed

text \<open>
  C8. The projection of a row with a valid status is a result record whose social posts
  are \<open>["line1", "line2", "line3"]\<close> when the text column holds these three lines joined by
  newlines, and absent when the column is absent; a non-empty column that joins lines
  without newlines is split back into these lines; the same holds of the campaign ideas.
\<close>

theorem task_to_result_lists:
  assumes "TaskStatus_of_value (status task) = Inr st"
  shows "\<exists>r. task_to_result task = Inr r \<and>
           (social_media_posts task = None \<longrightarrow> tr_social_media_posts r = None) \<and>
           (social_media_posts task = Some (''line1'' @ [newline] @ ''line2'' @ [newline] @ ''line3'') \<longrightarrow>
              tr_social_media_posts r = Some [''line1'', ''line2'', ''line3'']) \<and>
           (\<forall>lines. social_media_posts task = Some (str_join [newline] lines) \<and>
                str_join [newline] lines \<noteq> [] \<and> (\<forall>line \<in> set lines. newline \<notin> set line) \<longrightarrow>
              tr_social_media_posts r = Some lines) \<and>
           (campaign_ideas task = None \<longrightarrow> tr_campaign_ideas r = None) \<and>
           (campaign_ideas task = Some (''line1'' @ [newline] @ ''line2'' @ [newline] @ ''line3'') \<longrightarrow>
              tr_campaign_ideas r = Some [''line1'', ''line2'', ''line3'']) \<and>
           (\<forall>lines. campaign_ideas task = Some (str_join [newline] lines) \<and>
                str_join [newline] lines \<noteq> [] \<and> (\<forall>line \<in> set lines. newline \<notin> set line) \<longrightarrow>
              tr_campaign_ideas r = Some lines)"
proof -
  have three: "split_if_truthy (Some (''line1'' @ [newline] @ ''line2'' @ [newline] @ ''line3'')) =
      Some [''line1'', ''line2'', ''line3'']"
    using str_split_three_lines by (simp add: split_if_truthy_def)
  have joined: "split_if_truthy (Some (str_join [newline] lines)) = Some lines"
    if "str_join [newline] lines \<noteq> []" and "\<forall>line \<in> set lines. newline \<notin> set line" for lines
  proof -
    from that(1) have "lines \<noteq> []" by auto
    then show ?thesis
      using that by (simp add: split_if_truthy_def str_split_join)
  qed
  show ?thesis
    using assms three joined
    by (simp add: task_to_result_def split_if_truthy_def)
qed

theorem task_to_result_lists_witness:
  "\<exists>r. task_to_result lines_task = Inr r \<and>
       tr_social_media_posts r = Some [''line1'', ''line2'', ''line3''] \<and>
       tr_campaign_ideas r = None"
proof -
  have st: "TaskStatus_of_value (status lines_task) = Inr COMPLETED"
    by (simp add: lines_task_def TaskStatus_of_value_def)
  have "social_media_posts lines_task = Some (''line1'' @ [newline] @ ''line2'' @ [newline] @ ''line3'')"
    and "campaign_ideas lines_task = None"
    by (simp_all add: lines_task_def example_task_def)
  then show ?thesis
    using task_to_result_lists [OF st] by blast
qed

text \<open>
  C9. \<open>GET /tasks\<close> always answers 200: with the empty list when reading the rows raises or
  when converting one of them raises, and otherwise with the result records of all the
  rows, ordered by creation time descending.
\<close>

theorem list_tasks_degrades:
  "(\<exists>body. list_tasks d = Response 200 body) \<and>
   (\<forall>e. get_all_tasks d = Inl e \<longrightarrow> list_tasks d = Response 200 []) \<and>
   (\<forall>rows. d = Database rows \<and> (\<exists>task \<in> set rows. \<exists>e. task_to_result task = Inl e) \<longrightarrow>
      list_tasks d = Response 200 []) \<and>
   (\<forall>rows. d = Database rows \<and> (\<forall>task \<in> set rows. \<exists>r. task_to_result task = Inr r) \<longrightarrow>
      (\<exists>tasks body. list_tasks d = Response 200 body \<and>
         mset tasks = mset rows \<and> sorted (rev (map created_at tasks)) \<and>
         list_all2 (\<lambda>task r. task_to_result task = Inr r) tasks body))"
proof (intro conjI allI impI)
  show "\<exists>body. list_tasks d = Response 200 body"
    by (simp add: list_tasks_def split: sum.splits)
next
  fix e assume "get_all_tasks d = Inl e"
  then show "list_tasks d = Response 200 []"
    by (simp add: list_tasks_def)
next
  fix rows
  assume a: "d = Database rows \<and> (\<exists>task \<in> set rows. \<exists>e. task_to_result task = Inl e)"
  then have "\<exists>task \<in> set (rev (sort_key created_at rows)). \<exists>e. task_to_result task = Inl e"
    by simp
  then obtain e where "results_of (rev (sort_key created_at rows)) = Inl e"
    using results_of_Inl [of "rev (sort_key created_at rows)"] by blast
  then show "list_tasks d = Response 200 []"
    using a by (simp add: list_tasks_def get_all_tasks_def)
next
  fix rows
  assume a: "d = Database rows \<and> (\<forall>task \<in> set rows. \<exists>r. task_to_result task = Inr r)"
  let ?tasks = "rev (sort_key created_at rows)"
  from a have "\<forall>task \<in> set ?tasks. \<exists>r. task_to_result task = Inr r"
    by simp
  then obtain rs where rs: "results_of ?tasks = Inr rs"
    using results_of_total by blast
  then have "list_all2 (\<lambda>task r. task_to_result task = Inr r) ?tasks rs"
    by (simp add: results_of_Inr)
  moreover have "list_tasks d = Response 200 rs"
    using a rs by (simp add: list_tasks_def get_all_tasks_def)
  moreover have "mset ?tasks = mset rows"
    by simp
  moreover have "sorted (rev (map created_at ?tasks))"
    by (simp add: rev_map)
  ultimately show "\<exists>tasks body. list_tasks d = Response 200 body \<and>
         mset tasks = mset rows \<and> sorted (rev (map created_at tasks)) \<and>
         list_all2 (\<lambda>task r. task_to_result task = Inr r) tasks body"
    by blast
qed

theorem list_tasks_degrades_witness:
  "list_tasks (Unreachable ''connection refused'') = Response 200 [] \<and>
   list_tasks (Database [example_task, unreadable_task]) = Response 200 [] \<and>
   (\<exists>tasks body. list_tasks (Database [example_task, later_task]) = Response 200 body \<and>
      mset tasks = mset [example_task, later_task] \<and> sorted (rev (map created_at tasks)) \<and>
      list_all2 (\<lambda>task r. task_to_result task = Inr r) tasks body) \<and>
   list_tasks (Database [example_task, later_task]) =
     Response 200
       [\<lparr>tr_task_id = ''t2'', tr_topic = ''Launch eco-friendly product line'', tr_status = PENDING,
         tr_created_at = 11, tr_completed_at = None, tr_content_strategy = None,
         tr_social_media_posts = None, tr_blog_outline = None, tr_campaign_ideas = None,
         tr_error_message = None\<rparr>,
        \<lparr>tr_task_id = ''t1'', tr_topic = ''Launch eco-friendly product line'', tr_status = PENDING,
         tr_created_at = 10, tr_completed_at = None, tr_content_strategy = None,
         tr_social_media_posts = None, tr_blog_outline = None, tr_campaign_ideas = None,
         tr_error_message = None\<rparr>]"
proof -
  have a: "get_all_tasks (Unreachable ''connection refused'') = Inl (Exception ''connection refused'')"
    by (simp add: get_all_tasks_def)
  have b: "\<exists>task \<in> set [example_task, unreadable_task]. \<exists>e. task_to_result task = Inl e"
    by (simp add: task_to_result_def unreadable_task_def TaskStatus_of_value_def)
  have c: "\<forall>task \<in> set [example_task, later_task]. \<exists>r. task_to_result task = Inr r"
    by (simp add: task_to_result_def later_task_def example_task_def TaskStatus_of_value_def)
  have d: "list_tasks (Database [example_task, later_task]) =
     Response 200
       [\<lparr>tr_task_id = ''t2'', tr_topic = ''Launch eco-friendly product line'', tr_status = PENDING,
         tr_created_at = 11, tr_completed_at = None, tr_content_strategy = None,
         tr_social_media_posts = None, tr_blog_outline = None, tr_campaign_ideas = None,
         tr_error_message = None\<rparr>,
        \<lparr>tr_task_id = ''t1'', tr_topic = ''Launch eco-friendly product line'', tr_status = PENDING,
         tr_created_at = 10, tr_completed_at = None, tr_content_strategy = None,
         tr_social_media_posts = None, tr_blog_outline = None, tr_campaign_ideas = None,
         tr_error_message = None\<rparr>]"
    by code_simp
  have 1: "list_tasks (Unreachable ''connection refused'') = Response 200 []"
    using list_tasks_degrades [of "Unreachable ''connection refused''"] a by blast
  have 2: "list_tasks (Database [example_task, unreadable_task]) = Response 200 []"
    using list_tasks_degrades [of "Database [example_task, unreadable_task]"] b by blast
  have 3: "\<exists>tasks body. list_tasks (Database [example_task, later_task]) = Response 200 body \<and>
      mset tasks = mset [example_task, later_task] \<and> sorted (rev (map created_at tasks)) \<and>
      list_all2 (\<lambda>task r. task_to_result task = Inr r) tasks body"
    using list_tasks_degrades [of "Database [example_task, later_task]"] c by blast
  show ?thesis
    using 1 2 3 d by (intro conjI)
qed

section \<open>The task lifecycle\<close>

text \<open>
  C2, as amended. A row whose status is terminal is left entirely unchanged by \<open>cancel_task\<close>
  (which then changes nothing at all), by \<open>cancel_task\<close> and \<open>execute_task\<close> on any other
  identifier, by \<open>create_task\<close>, and by \<open>execute_task\<close> on its own identifier when its status
  is \<open>cancelled\<close>, the one status \<open>execute_task\<close> guards against.
\<close>

theorem terminal_rows_kept:
  "get_task (db s) tid = Some task \<and> terminal (status task) \<longrightarrow>
     cancel_task now s tid = (Some task, s) \<and>
     (status task = TaskStatus_value CANCELLED \<longrightarrow>
        execute_task lib now during_commit during_pipeline s tid = (Some task, s)) \<and>
     (\<forall>other. get_task (db (snd (cancel_task now s other))) tid = Some task) \<and>
     (\<forall>other. other \<noteq> tid \<longrightarrow>
        get_task (db (snd (execute_task lib now during_commit during_pipeline s other))) tid = Some task) \<and>
     get_task (db (snd (create_task uuid now s tpc lang))) tid = Some task"
proof (intro impI, elim conjE)
  assume found: "get_task (db s) tid = Some task" and final: "terminal (status task)"
  have 1: "cancel_task now s tid = (Some task, s)"
    using found final by (auto simp: cancel_task_def terminal_def)
  have 2: "status task = TaskStatus_value CANCELLED \<longrightarrow>
        execute_task lib now during_commit during_pipeline s tid = (Some task, s)"
    using found by (simp add: execute_task_cancelled)
  have 3: "\<forall>other. get_task (db (snd (cancel_task now s other))) tid = Some task"
    using found final by (simp add: cancel_task_keeps_terminal)
  have 4: "\<forall>other. other \<noteq> tid \<longrightarrow>
        get_task (db (snd (execute_task lib now during_commit during_pipeline s other))) tid = Some task"
    using found final by (simp add: execute_task_other_keeps_terminal)
  have 5: "get_task (db (snd (create_task uuid now s tpc lang))) tid = Some task"
    using found by (rule create_task_keeps)
  show "cancel_task now s tid = (Some task, s) \<and>
     (status task = TaskStatus_value CANCELLED \<longrightarrow>
        execute_task lib now during_commit during_pipeline s tid = (Some task, s)) \<and>
     (\<forall>other. get_task (db (snd (cancel_task now s other))) tid = Some task) \<and>
     (\<forall>other. other \<noteq> tid \<longrightarrow>
        get_task (db (snd (execute_task lib now during_commit during_pipeline s other))) tid = Some task) \<and>
     get_task (db (snd (create_task uuid now s tpc lang))) tid = Some task"
    using 1 2 3 4 5 by (intro conjI)
qed

theorem terminal_rows_kept_witness:
  "fst (cancel_task 20 completed_store ''t1'') = Some completed_task \<and>
   db (snd (cancel_task 20 completed_store ''t1'')) = [completed_task] \<and>
   fst (execute_task plain_library 20 [] [] cancelled_store ''t1'') = Some cancelled_task \<and>
   db (snd (execute_task plain_library 20 [] [] cancelled_store ''t1'')) = [cancelled_task] \<and>
   running_tasks (snd (execute_task plain_library 20 [] [] cancelled_store ''t1'')) ''t1'' = Some False"
proof -
  have a: "get_task (db completed_store) ''t1'' = Some completed_task \<and> terminal (status completed_task)"
    by (simp add: get_task_def completed_store_def completed_task_def example_task_def terminal_def)
  have b: "get_task (db cancelled_store) ''t1'' = Some cancelled_task \<and> terminal (status cancelled_task)"
    by (simp add: get_task_def cancelled_store_def cancelled_task_def example_task_def terminal_def)
  have c: "status cancelled_task = TaskStatus_value CANCELLED"
    by (simp add: cancelled_task_def)
  have 1: "cancel_task 20 completed_store ''t1'' = (Some completed_task, completed_store)"
    using terminal_rows_kept [of completed_store "''t1''" completed_task 20] a by blast
  have 2: "execute_task plain_library 20 [] [] cancelled_store ''t1'' = (Some cancelled_task, cancelled_store)"
    using terminal_rows_kept [of cancelled_store "''t1''" cancelled_task 20 plain_library "[]" "[]"] b c
    by blast
  have d: "db completed_store = [completed_task]" "db cancelled_store = [cancelled_task]"
    "running_tasks cancelled_store ''t1'' = Some False"
    by (simp_all add: completed_store_def cancelled_store_def)
  show ?thesis
    by (simp add: 1 2 d)
qed

theorem completed_row_executed_again_counterexample:
  "map status (db completed_store) = [''completed''] \<and>
   map status (db (snd (execute_task rate_limited_library 20 [] [] completed_store ''t1''))) = [''failed''] \<and>
   map error_message (db (snd (execute_task rate_limited_library 20 [] [] completed_store ''t1''))) =
     [Some ''rate limited'']"
  by code_simp

text \<open>
  C3, as amended. When \<open>execute_task\<close> has passed its checkpoint before the pipeline, it
  ends with the row in a terminal status and with no entry for the identifier in the
  registry, whether the pipeline returned, raised, or the task was cancelled meanwhile.
  \<open>cancel_task\<close> on a pending or running task moves the row to \<open>cancelled\<close> and keeps the
  entry, set to false.
\<close>

theorem registry_entry_after_terminal:
  "get_task (db s) tid = Some task \<longrightarrow>
     (status task \<noteq> TaskStatus_value CANCELLED \<and>
      running_get (running_tasks (at_first_checkpoint during_commit s task)) tid \<longrightarrow>
        running_tasks (snd (execute_task lib now during_commit during_pipeline s tid)) tid = None \<and>
        (\<exists>task'. get_task (db (snd (execute_task lib now during_commit during_pipeline s tid))) tid = Some task' \<and>
                 terminal (status task'))) \<and>
     (status task = TaskStatus_value PENDING \<or> status task = TaskStatus_value IN_PROGRESS \<longrightarrow>
        running_tasks (snd (cancel_task now s tid)) tid = Some False \<and>
        (\<exists>task'. get_task (db (snd (cancel_task now s tid))) tid = Some task' \<and>
                 status task' = TaskStatus_value CANCELLED))"
proof (intro impI conjI)
  assume found: "get_task (db s) tid = Some task"
  then have tid: "task_id task = tid" by (rule get_task_task_id)
  {
    assume a: "status task \<noteq> TaskStatus_value CANCELLED \<and>
      running_get (running_tasks (at_first_checkpoint during_commit s task)) tid"
    then have st: "status task \<noteq> TaskStatus_value CANCELLED"
      and first: "running_get (running_tasks (at_first_checkpoint during_commit s task)) tid"
      by simp_all
    show "running_tasks (snd (execute_task lib now during_commit during_pipeline s tid)) tid = None"
    proof (cases "execute_marketing_task lib (topic task) (language task)")
      case (Inl e)
      then obtain msg where "execute_marketing_task lib (topic task) (language task) = Inl (Exception msg)"
        by (cases e) simp
      then show ?thesis
        by (simp add: execute_task_raised [OF found st first] Let_def)
    next
      case (Inr res)
      then show ?thesis
        by (simp add: execute_task_returned [OF found st first] Let_def)
    qed
    show "\<exists>task'. get_task (db (snd (execute_task lib now during_commit during_pipeline s tid))) tid = Some task' \<and>
                 terminal (status task')"
    proof (cases "execute_marketing_task lib (topic task) (language task)")
      case (Inl e)
      then obtain msg where "execute_marketing_task lib (topic task) (language task) = Inl (Exception msg)"
        by (cases e) simp
      then show ?thesis
        using tid get_task_after_commit [OF found, of _ during_commit during_pipeline task]
        by (simp add: execute_task_raised [OF found st first] Let_def terminal_def)
    next
      case (Inr res)
      then have "b_status res = Some ''completed'' \<or> b_status res = Some ''failed''"
        by (rule b_status_execute_marketing_task)
      then show ?thesis
        using tid Inr get_task_after_commit [OF found, of _ during_commit during_pipeline task]
        by (auto simp: execute_task_returned [OF found st first] Let_def terminal_def store_results_def)
    qed
  }
  {
    assume "status task = TaskStatus_value PENDING \<or> status task = TaskStatus_value IN_PROGRESS"
    then show "running_tasks (snd (cancel_task now s tid)) tid = Some False"
      and "\<exists>task'. get_task (db (snd (cancel_task now s tid))) tid = Some task' \<and>
                 status task' = TaskStatus_value CANCELLED"
      using found tid by (auto simp: cancel_task_def Let_def get_task_db_commit)
  }
qed

theorem registry_entry_after_terminal_witness:
  "running_tasks (snd (execute_task plain_library 20 [] [] example_store ''t1'')) ''t1'' = None \<and>
   running_tasks (snd (execute_task plain_library 20 [] [CancelRequest ''t1'' 15] example_store ''t1''))
     ''t1'' = None \<and>
   running_tasks (snd (cancel_task 20 example_store ''t1'')) ''t1'' = Some False"
proof -
  have found: "get_task (db example_store) ''t1'' = Some example_task"
    by (simp add: get_task_def example_store_def example_task_def)
  have st: "status example_task \<noteq> TaskStatus_value CANCELLED"
    and pending: "status example_task = TaskStatus_value PENDING"
    by (simp_all add: example_task_def)
  have first: "running_get (running_tasks (at_first_checkpoint [] example_store example_task)) ''t1''"
    by code_simp
  show ?thesis
    using registry_entry_after_terminal [of example_store "''t1''" example_task "[]" plain_library 20 "[]"]
      registry_entry_after_terminal [of example_store "''t1''" example_task "[]" plain_library 20
        "[CancelRequest ''t1'' 15]"]
      found st pending first
    by blast
qed

theorem cancelled_entry_stays_counterexample:
  "map status (db (snd (cancel_task 20 example_store ''t1''))) = [''cancelled''] \<and>
   running_tasks (snd (cancel_task 20 example_store ''t1'')) ''t1'' = Some False \<and>
   running_tasks (snd (execute_task plain_library 30 [] []
                         (snd (cancel_task 20 example_store ''t1'')) ''t1'')) ''t1'' = Some False"
  by code_simp

text \<open>
  C6. When \<open>execute_task\<close> has called the pipeline and the call raises, the row is
  persisted with \<open>completed_at\<close> set and, if the flag of the identifier is then true, status
  \<open>failed\<close> and the exception's description as error message, otherwise status \<open>cancelled\<close>
  and the error message "Task was cancelled".
\<close>

theorem exception_path:
  assumes "get_task (db s) tid = Some task"
    and "status task \<noteq> TaskStatus_value CANCELLED"
    and "running_get (running_tasks (at_first_checkpoint during_commit s task)) tid"
    and "execute_marketing_task lib (topic task) (language task) = Inl (Exception msg)"
  shows "let task' =
               (if running_get (running_tasks (at_second_checkpoint during_commit during_pipeline s task)) tid
                then task\<lparr>status := TaskStatus_value FAILED, error_message := Some msg,
                           completed_at := Some now\<rparr>
                else task\<lparr>status := TaskStatus_value CANCELLED,
                           error_message := Some ''Task was cancelled'',
                           completed_at := Some now\<rparr>)
         in fst (execute_task lib now during_commit during_pipeline s tid) = Some task' \<and>
            get_task (db (snd (execute_task lib now during_commit during_pipeline s tid))) tid = Some task' \<and>
            completed_at task' = Some now"
proof -
  have tid: "task_id task = tid"
    using assms(1) by (rule get_task_task_id)
  show ?thesis
    using tid get_task_after_commit [OF assms(1), of _ during_commit during_pipeline task]
    by (simp add: execute_task_raised [OF assms] Let_def)
qed

theorem exception_path_witness:
  "get_task (db (snd (execute_task unbuildable_library 20 [] [] example_store ''t1''))) ''t1'' =
     Some (example_task\<lparr>status := ''failed'', error_message := Some ''rate limited'',
             completed_at := Some 20\<rparr>) \<and>
   get_task (db (snd (execute_task unbuildable_library 20 [] [CancelRequest ''t1'' 15]
                        example_store ''t1''))) ''t1'' =
     Some (example_task\<lparr>status := ''cancelled'', error_message := Some ''Task was cancelled'',
             completed_at := Some 20\<rparr>)"
proof -
  have found: "get_task (db example_store) ''t1'' = Some example_task"
    by (simp add: get_task_def example_store_def example_task_def)
  have st: "status example_task \<noteq> TaskStatus_value CANCELLED"
    by (simp add: example_task_def)
  have first: "running_get (running_tasks (at_first_checkpoint [] example_store example_task)) ''t1''"
    by code_simp
  have raised: "execute_marketing_task unbuildable_library (topic example_task) (language example_task) =
      Inl (Exception ''rate limited'')"
    by (simp add: execute_marketing_task_def create_marketing_crew_def unbuildable_library_def)
  have quiet: "running_get (running_tasks (at_second_checkpoint [] [] example_store example_task)) ''t1''"
    by code_simp
  have cancelled: "\<not> running_get (running_tasks
      (at_second_checkpoint [] [CancelRequest ''t1'' 15] example_store example_task)) ''t1''"
    by code_simp
  have 1: "get_task (db (snd (execute_task unbuildable_library 20 [] [] example_store ''t1''))) ''t1'' =
     Some (example_task\<lparr>status := ''failed'', error_message := Some ''rate limited'',
             completed_at := Some 20\<rparr>)"
    using exception_path [OF found st first raised, of "[]" 20] quiet by (simp add: Let_def)
  have 2: "get_task (db (snd (execute_task unbuildable_library 20 [] [CancelRequest ''t1'' 15]
                        example_store ''t1''))) ''t1'' =
     Some (example_task\<lparr>status := ''cancelled'', error_message := Some ''Task was cancelled'',
             completed_at := Some 20\<rparr>)"
    using exception_path [OF found st first raised, of "[CancelRequest ''t1'' 15]" 20] cancelled
    by (simp add: Let_def)
  show ?thesis using 1 2 by (intro conjI)
qed

text \<open>
  C7, as amended. When \<open>execute_task\<close> persists a successful pipeline result, the columns
  \<open>social_media_posts\<close> and \<open>campaign_ideas\<close> hold the extracted lines joined by newlines; when
  an extraction matched no line its column holds the empty text, not \<open>None\<close>, and the
  projection to the result record makes the field absent.
\<close>

theorem empty_extraction_persisted:
  assumes "get_task (db s) tid = Some task"
    and "status task \<noteq> TaskStatus_value CANCELLED"
    and "running_get (running_tasks (at_first_checkpoint during_commit s task)) tid"
    and "running_get (running_tasks (at_second_checkpoint during_commit during_pipeline s task)) tid"
    and "create_marketing_crew lib (topic task) (language task) = Inr crew"
    and "kickoff lib crew = Inr transcript"
  shows "\<exists>task' r.
           fst (execute_task lib now during_commit during_pipeline s tid) = Some task' \<and>
           get_task (db (snd (execute_task lib now during_commit during_pipeline s tid))) tid = Some task' \<and>
           status task' = TaskStatus_value COMPLETED \<and>
           social_media_posts task' = Some (str_join [newline] (extract_social_posts transcript)) \<and>
           campaign_ideas task' = Some (str_join [newline] (extract_campaign_ideas transcript)) \<and>
           task_to_result task' = Inr r \<and>
           (extract_social_posts transcript = [] \<longrightarrow>
              social_media_posts task' = Some [] \<and> tr_social_media_posts r = None) \<and>
           (extract_campaign_ideas transcript = [] \<longrightarrow>
              campaign_ideas task' = Some [] \<and> tr_campaign_ideas r = None)"
proof -
  let ?res = "\<lparr>b_status = Some ''completed'', b_topic = Some (topic task),
             b_result = Some transcript,
             b_content_strategy = Some (extract_content_strategy transcript),
             b_social_media_posts = Some (extract_social_posts transcript),
             b_blog_outline = Some (extract_blog_outline transcript),
             b_campaign_ideas = Some (extract_campaign_ideas transcript),
             b_error_message = None\<rparr>"
  let ?task' = "store_results now ?res (task\<lparr>status := TaskStatus_value IN_PROGRESS\<rparr>)"
  have res: "execute_marketing_task lib (topic task) (language task) = Inr ?res"
    using assms(5,6) by (simp add: execute_marketing_task_def)
  have tid: "task_id ?task' = tid"
    using get_task_task_id [OF assms(1)] by (simp add: store_results_def)
  have ex: "execute_task lib now during_commit during_pipeline s tid =
      (Some ?task', \<lparr>db = db_commit ?task' (db (at_second_checkpoint during_commit during_pipeline s task)),
         running_tasks = (running_tasks (at_second_checkpoint during_commit during_pipeline s task))(tid := None)\<rparr>)"
    using assms(4) by (simp add: execute_task_returned [OF assms(1,2,3) res] Let_def)
  have stored: "get_task (db (snd (execute_task lib now during_commit during_pipeline s tid))) tid = Some ?task'"
    using get_task_after_commit [OF assms(1) tid] by (simp add: ex)
  have fields: "status ?task' = ''completed''"
    "social_media_posts ?task' = Some (str_join [newline] (extract_social_posts transcript))"
    "campaign_ideas ?task' = Some (str_join [newline] (extract_campaign_ideas transcript))"
    by (simp_all add: store_results_def)
  obtain r where r: "task_to_result ?task' = Inr r"
     "tr_social_media_posts r = split_if_truthy (social_media_posts ?task')"
     "tr_campaign_ideas r = split_if_truthy (campaign_ideas ?task')"
    using task_to_result_completed [OF fields(1)] by blast
  have posts: "extract_social_posts transcript = [] \<longrightarrow>
      social_media_posts ?task' = Some [] \<and> tr_social_media_posts r = None"
    using r(2) by (simp add: split_if_truthy_def store_results_def)
  have ideas: "extract_campaign_ideas transcript = [] \<longrightarrow>
      campaign_ideas ?task' = Some [] \<and> tr_campaign_ideas r = None"
    using r(3) by (simp add: split_if_truthy_def store_results_def)
  show ?thesis
    using ex stored fields r(1) posts ideas
    by (intro exI [of _ ?task'] exI [of _ r]) simp
qed

theorem empty_extraction_persisted_witness:
  "\<exists>task' r.
     get_task (db (snd (execute_task plain_library 20 [] [] example_store ''t1''))) ''t1'' = Some task' \<and>
     social_media_posts task' = Some [] \<and> campaign_ideas task' = Some [] \<and>
     task_to_result task' = Inr r \<and> tr_social_media_posts r = None \<and> tr_campaign_ideas r = None"
proof -
  have found: "get_task (db example_store) ''t1'' = Some example_task"
    by (simp add: get_task_def example_store_def example_task_def)
  have st: "status example_task \<noteq> TaskStatus_value CANCELLED"
    by (simp add: example_task_def)
  have first: "running_get (running_tasks (at_first_checkpoint [] example_store example_task)) ''t1''"
    by code_simp
  have second: "running_get (running_tasks (at_second_checkpoint [] [] example_store example_task)) ''t1''"
    by code_simp
  have built: "create_marketing_crew plain_library (topic example_task) (language example_task) = Inr ()"
    by (simp add: create_marketing_crew_def plain_library_def)
  have kick: "kickoff plain_library () = Inr ''hello''"
    by (simp add: plain_library_def)
  have none: "extract_social_posts ''hello'' = []" "extract_campaign_ideas ''hello'' = []"
    by code_simp+
  obtain task' r where
    "get_task (db (snd (execute_task plain_library 20 [] [] example_store ''t1''))) ''t1'' = Some task'"
    and "task_to_result task' = Inr r"
    and "extract_social_posts ''hello'' = [] \<longrightarrow>
           social_media_posts task' = Some [] \<and> tr_social_media_posts r = None"
    and "extract_campaign_ideas ''hello'' = [] \<longrightarrow>
           campaign_ideas task' = Some [] \<and> tr_campaign_ideas r = None"
    using empty_extraction_persisted [OF found st first second built kick, of 20] by blast
  then show ?thesis
    using none by blast
qed

theorem empty_posts_stored_counterexample:
  "map social_media_posts (db (snd (execute_task plain_library 20 [] [] example_store ''t1''))) = [Some []] \<and>
   map campaign_ideas (db (snd (execute_task plain_library 20 [] [] example_store ''t1''))) = [Some []] \<and>
   map status (db (snd (execute_task plain_library 20 [] [] example_store ''t1''))) = [''completed''] \<and>
   extract_social_posts ''hello'' = [] \<and> extract_campaign_ideas ''hello'' = []"
  by code_simp

text \<open>
  C10. When \<open>execute_task\<close> persists the bundle of a failed pipeline execution, the columns
  \<open>result\<close>, \<open>social_media_posts\<close> and \<open>campaign_ideas\<close> are the empty text, \<open>content_strategy\<close>
  and \<open>blog_outline\<close> are absent, and the result record of the row has all four artifacts
  absent, with status \<open>failed\<close> and the error message.
\<close>

theorem failed_bundle_persisted:
  assumes "get_task (db s) tid = Some task"
    and "status task \<noteq> TaskStatus_value CANCELLED"
    and "running_get (running_tasks (at_first_checkpoint during_commit s task)) tid"
    and "running_get (running_tasks (at_second_checkpoint during_commit during_pipeline s task)) tid"
    and "create_marketing_crew lib (topic task) (language task) = Inr crew"
    and "kickoff lib crew = Inl (Exception msg)"
  shows "\<exists>task' r.
           fst (execute_task lib now during_commit during_pipeline s tid) = Some task' \<and>
           get_task (db (snd (execute_task lib now during_commit during_pipeline s tid))) tid = Some task' \<and>
           status task' = TaskStatus_value FAILED \<and> error_message task' = Some msg \<and>
           result task' = Some [] \<and> social_media_posts task' = Some [] \<and>
           campaign_ideas task' = Some [] \<and>
           content_strategy task' = None \<and> blog_outline task' = None \<and>
           task_to_result task' = Inr r \<and>
           tr_status r = FAILED \<and> tr_error_message r = Some msg \<and>
           tr_content_strategy r = None \<and> tr_social_media_posts r = None \<and>
           tr_blog_outline r = None \<and> tr_campaign_ideas r = None"
proof -
  let ?res = "\<lparr>b_status = Some ''failed'', b_topic = Some (topic task), b_result = None,
             b_content_strategy = None, b_social_media_posts = None, b_blog_outline = None,
             b_campaign_ideas = None, b_error_message = Some msg\<rparr>"
  let ?task' = "store_results now ?res (task\<lparr>status := TaskStatus_value IN_PROGRESS\<rparr>)"
  have res: "execute_marketing_task lib (topic task) (language task) = Inr ?res"
    using assms(5,6) by (simp add: execute_marketing_task_def)
  have tid: "task_id ?task' = tid"
    using get_task_task_id [OF assms(1)] by (simp add: store_results_def)
  have ex: "execute_task lib now during_commit during_pipeline s tid =
      (Some ?task', \<lparr>db = db_commit ?task' (db (at_second_checkpoint during_commit during_pipeline s task)),
         running_tasks = (running_tasks (at_second_checkpoint during_commit during_pipeline s task))(tid := None)\<rparr>)"
    using assms(4) by (simp add: execute_task_returned [OF assms(1,2,3) res] Let_def)
  have stored: "get_task (db (snd (execute_task lib now during_commit during_pipeline s tid))) tid = Some ?task'"
    using get_task_after_commit [OF assms(1) tid] by (simp add: ex)
  have fields: "status ?task' = ''failed''" "error_message ?task' = Some msg" "result ?task' = Some []"
    "social_media_posts ?task' = Some []" "campaign_ideas ?task' = Some []"
    "content_strategy ?task' = None" "blog_outline ?task' = None"
    by (simp_all add: store_results_def)
  obtain r where r: "task_to_result ?task' = Inr r" "tr_status r = FAILED"
     "tr_content_strategy r = content_strategy ?task'"
     "tr_social_media_posts r = split_if_truthy (social_media_posts ?task')"
     "tr_blog_outline r = blog_outline ?task'"
     "tr_campaign_ideas r = split_if_truthy (campaign_ideas ?task')"
     "tr_error_message r = error_message ?task'"
    using task_to_result_failed [OF fields(1)] by blast
  have "tr_social_media_posts r = None" "tr_campaign_ideas r = None"
    "tr_content_strategy r = None" "tr_blog_outline r = None" "tr_error_message r = Some msg"
    using r fields by (simp_all add: split_if_truthy_def)
  then show ?thesis
    using ex stored fields r(1,2) by (intro exI [of _ ?task'] exI [of _ r]) simp
qed

theorem failed_bundle_persisted_witness:
  "\<exists>task' r.
     get_task (db (snd (execute_task rate_limited_library 20 [] [] example_store ''t1''))) ''t1'' = Some task' \<and>
     status task' = ''failed'' \<and> error_message task' = Some ''rate limited'' \<and>
     result task' = Some [] \<and> social_media_posts task' = Some [] \<and> campaign_ideas task' = Some [] \<and>
     task_to_result task' = Inr r \<and> tr_social_media_posts r = None \<and> tr_campaign_ideas r = None"
proof -
  have found: "get_task (db example_store) ''t1'' = Some example_task"
    by (simp add: get_task_def example_store_def example_task_def)
  have st: "status example_task \<noteq> TaskStatus_value CANCELLED"
    by (simp add: example_task_def)
  have first: "running_get (running_tasks (at_first_checkpoint [] example_store example_task)) ''t1''"
    by code_simp
  have second: "running_get (running_tasks (at_second_checkpoint [] [] example_store example_task)) ''t1''"
    by code_simp
  have built: "create_marketing_crew rate_limited_library (topic example_task) (language example_task) = Inr ()"
    by (simp add: create_marketing_crew_def rate_limited_library_def)
  have kick: "kickoff rate_limited_library () = Inl (Exception ''rate limited'')"
    by (simp add: rate_limited_library_def)
  show ?thesis
    using failed_bundle_persisted [OF found st first second built kick, of 20]
    by (elim exE conjE, intro exI conjI) simp_all
qed

end
